theory Spec2Isabelle
  imports Complex_Main "HOL-Library.Multiset"
begin

section \<open>A 3D object viewer: meshes, projectors and renderers\<close>

text \<open>
  The development follows the Python modules \<^verbatim>\<open>Object.py\<close>, \<^verbatim>\<open>Projector.py\<close>,
  \<^verbatim>\<open>Renderer.py\<close> and the drawing interface of \<^verbatim>\<open>GUI.py\<close>.

  Arithmetic. The program computes on numpy \<^verbatim>\<open>float64\<close> values. Finite values are
  modelled by the real numbers, so every operation on finite values is exact here and
  rounding is not represented. The values that a division by zero produces (\<^verbatim>\<open>nan\<close>,
  \<^verbatim>\<open>inf\<close>) are represented explicitly, because numpy does not raise there and the
  program goes on computing with them.

  Effects. A method that mutates its argument returns the state after the call. The
  renderers return the error raised (if any) together with the mesh and the drawing
  surface as they stand when the call ends, also when it ends by an exception.
\<close>

subsection \<open>Exceptions\<close>

datatype error =
    ValueError
  | IndexError
  | AssertionError
  | NotImplementedError
  | OverflowError

subsection \<open>numpy floats with the special values\<close>

datatype npfloat = Fin real | PInf | NInf | NaN

text \<open>Division of two finite values, as numpy performs it: no exception, \<^verbatim>\<open>0/0\<close> is
  \<^verbatim>\<open>nan\<close> and \<^verbatim>\<open>x/0\<close> is an infinity with the sign of \<open>x\<close> (the divisor of the
  program is a norm, a non-negative zero).\<close>

definition np_divide :: "real \<Rightarrow> real \<Rightarrow> npfloat" where
  "np_divide x y =
     (if y = 0 then (if x = 0 then NaN else if 0 < x then PInf else NInf)
      else Fin (x / y))"

fun fl_neg :: "npfloat \<Rightarrow> npfloat" where
  "fl_neg (Fin a) = Fin (- a)"
| "fl_neg PInf = NInf"
| "fl_neg NInf = PInf"
| "fl_neg NaN = NaN"

fun fl_abs :: "npfloat \<Rightarrow> npfloat" where
  "fl_abs (Fin a) = Fin \<bar>a\<bar>"
| "fl_abs PInf = PInf"
| "fl_abs NInf = PInf"
| "fl_abs NaN = NaN"

fun fl_add :: "npfloat \<Rightarrow> npfloat \<Rightarrow> npfloat" where
  "fl_add (Fin a) (Fin b) = Fin (a + b)"
| "fl_add NaN y = NaN"
| "fl_add x NaN = NaN"
| "fl_add PInf NInf = NaN"
| "fl_add NInf PInf = NaN"
| "fl_add PInf y = PInf"
| "fl_add x PInf = PInf"
| "fl_add NInf y = NInf"
| "fl_add x NInf = NInf"

definition fl_sub :: "npfloat \<Rightarrow> npfloat \<Rightarrow> npfloat" where
  "fl_sub x y = fl_add x (fl_neg y)"

fun fl_mul :: "npfloat \<Rightarrow> npfloat \<Rightarrow> npfloat" where
  "fl_mul (Fin a) (Fin b) = Fin (a * b)"
| "fl_mul NaN y = NaN"
| "fl_mul x NaN = NaN"
| "fl_mul (Fin a) PInf = (if a = 0 then NaN else if 0 < a then PInf else NInf)"
| "fl_mul (Fin a) NInf = (if a = 0 then NaN else if 0 < a then NInf else PInf)"
| "fl_mul PInf (Fin b) = (if b = 0 then NaN else if 0 < b then PInf else NInf)"
| "fl_mul NInf (Fin b) = (if b = 0 then NaN else if 0 < b then NInf else PInf)"
| "fl_mul PInf PInf = PInf"
| "fl_mul NInf NInf = PInf"
| "fl_mul PInf NInf = NInf"
| "fl_mul NInf PInf = NInf"

text \<open>Python's \<^verbatim>\<open>int(x)\<close> on a float: truncation toward zero; \<^verbatim>\<open>ValueError\<close> on
  \<^verbatim>\<open>nan\<close>, \<^verbatim>\<open>OverflowError\<close> on an infinity.\<close>

fun py_int :: "npfloat \<Rightarrow> error + int" where
  "py_int (Fin a) = Inr (if 0 \<le> a then \<lfloor>a\<rfloor> else \<lceil>a\<rceil>)"
| "py_int NaN = Inl ValueError"
| "py_int PInf = Inl OverflowError"
| "py_int NInf = Inl OverflowError"

subsection \<open>Indexing\<close>

text \<open>\<^verbatim>\<open>xs[i]\<close> for a Python integer \<open>i\<close>, on a list or on the rows of a numpy array:
  a negative index counts from the end, an index out of range raises.\<close>

definition getitem :: "'a list \<Rightarrow> int \<Rightarrow> error + 'a" where
  "getitem xs i =
     (if 0 \<le> i \<and> i < int (length xs) then Inr (xs ! nat i)
      else if i < 0 \<and> - int (length xs) \<le> i then Inr (xs ! nat (int (length xs) + i))
      else Inl IndexError)"

subsection \<open>Vectors and the mesh\<close>

type_synonym vec3 = "real \<times> real \<times> real"

type_synonym mat3 = "vec3 \<times> vec3 \<times> vec3"

type_synonym face = "int \<times> int \<times> int"

fun vadd :: "vec3 \<Rightarrow> vec3 \<Rightarrow> vec3" where
  "vadd (a, b, c) (x, y, z) = (a + x, b + y, c + z)"

fun vsub :: "vec3 \<Rightarrow> vec3 \<Rightarrow> vec3" where
  "vsub (a, b, c) (x, y, z) = (a - x, b - y, c - z)"


fun vscale :: "real \<Rightarrow> vec3 \<Rightarrow> vec3" where
  "vscale k (a, b, c) = (k * a, k * b, k * c)"

fun xs_of :: "vec3 \<Rightarrow> real" where
  "xs_of (x, y, z) = x"

fun ys_of :: "vec3 \<Rightarrow> real" where
  "ys_of (x, y, z) = y"

fun zs_of :: "vec3 \<Rightarrow> real" where
  "zs_of (x, y, z) = z"

fun coords :: "vec3 \<Rightarrow> real list" where
  "coords (x, y, z) = [x, y, z]"

fun face_ids :: "face \<Rightarrow> int list" where
  "face_ids (i, j, k) = [i, j, k]"

text \<open>Class \<^verbatim>\<open>Object\<close>: \<^verbatim>\<open>vertices\<close> is the N x 3 matrix of the class's
  documentation, one row per vertex (with no rows it is the array of shape (0, 3));
  \<^verbatim>\<open>faces\<close> is the list of index triples.\<close>

record Object =
  vertices :: "vec3 list"
  faces :: "face list"

subsubsection \<open>Object.normalize\<close>





subsubsection \<open>Object.rotate\<close>

definition rot_mat :: "real \<Rightarrow> real \<Rightarrow> real \<Rightarrow> mat3" where
  "rot_mat a b r =
     ((cos a * cos b, cos a * sin b * sin r - sin a * cos r, cos a * sin b * cos r + sin a * sin r),
      (sin a * cos b, sin a * sin b * sin r + cos a * cos r, sin a * sin b * cos r - cos a * sin r),
      (- sin b, cos b * sin r, cos b * cos r))"

text \<open>A row vector times a 3 x 3 matrix: one row of \<^verbatim>\<open>vertices @ rot_mat\<close>.\<close>

fun vecmat :: "vec3 \<Rightarrow> mat3 \<Rightarrow> vec3" where
  "vecmat (x, y, z) ((a, b, c), (d, e, f), (g, h, i)) =
     (x * a + y * d + z * g, x * b + y * e + z * h, x * c + y * f + z * i)"

definition Object_rotate :: "Object \<Rightarrow> real \<Rightarrow> real \<Rightarrow> real \<Rightarrow> Object" where
  "Object_rotate self yaw pitch roll =
     self\<lparr>vertices := map (\<lambda>v. vecmat v (rot_mat yaw pitch roll)) (vertices self)\<rparr>"

subsection \<open>Projectors\<close>

text \<open>A numpy array as the projector receives it: its shape and, when it is
  two-dimensional, its rows.\<close>

record ndarray =
  shape :: "nat list"
  rows :: "real list list"

definition ndarray_of_vertices :: "vec3 list \<Rightarrow> ndarray" where
  "ndarray_of_vertices vs = \<lparr>shape = [length vs, 3], rows = map coords vs\<rparr>"

definition OrthographicProjector_project :: "ndarray \<Rightarrow> error + ndarray" where
  "OrthographicProjector_project vs =
     (if length (shape vs) \<noteq> 2 then Inl AssertionError
      else if \<not> 0 < shape vs ! 0 then Inl AssertionError
      else if shape vs ! 1 \<noteq> 3 then Inl AssertionError
      else Inr \<lparr>shape = [shape vs ! 0, min 2 (shape vs ! 1)], rows = map (take 2) (rows vs)\<rparr>)"

definition PerspectiveProjector_project :: "ndarray \<Rightarrow> error + ndarray" where
  "PerspectiveProjector_project vs = Inl NotImplementedError"

datatype Projector = OrthographicProjector | PerspectiveProjector

fun project :: "Projector \<Rightarrow> ndarray \<Rightarrow> error + ndarray" where
  "project OrthographicProjector vs = OrthographicProjector_project vs"
| "project PerspectiveProjector vs = PerspectiveProjector_project vs"

subsection \<open>The drawing surface\<close>

text \<open>The abstract class \<^verbatim>\<open>GUI\<close> is the drawing engine of the renderers. It is
  modelled by what a renderer can observe and cause: the canvas size it reports, the
  sequence of drawing calls it has received, and its attribute \<^verbatim>\<open>obj\<close>
  (\<^verbatim>\<open>clear_canvas\<close> resets it, as the class requires).\<close>

datatype gui_call =
    ClearCanvas
  | DrawCanvasPoint real real string
  | DrawCanvasLine real real real real string
  | DrawCanvasPolygon "real list" string string

record gui =
  canvas_size :: "int \<times> int"
  calls :: "gui_call list"
  gui_obj :: "Object option"

definition get_canvas_size :: "gui \<Rightarrow> int \<times> int" where
  "get_canvas_size g = canvas_size g"

definition clear_canvas :: "gui \<Rightarrow> gui" where
  "clear_canvas g = g\<lparr>calls := calls g @ [ClearCanvas], gui_obj := None\<rparr>"

definition draw_canvas_point :: "real \<Rightarrow> real \<Rightarrow> string \<Rightarrow> gui \<Rightarrow> gui" where
  "draw_canvas_point x y v_color g = g\<lparr>calls := calls g @ [DrawCanvasPoint x y v_color]\<rparr>"

definition draw_canvas_polygon :: "real list \<Rightarrow> string \<Rightarrow> string \<Rightarrow> gui \<Rightarrow> gui" where
  "draw_canvas_polygon xy_list e_color f_color g =
     g\<lparr>calls := calls g @ [DrawCanvasPolygon xy_list e_color f_color]\<rparr>"

subsection \<open>Renderers\<close>

text \<open>The style attributes of the two renderer classes. The classes are siblings under
  \<^verbatim>\<open>Renderer\<close>; the second record extends the first only to share the attribute
  names. The attribute \<^verbatim>\<open>gui\<close> is passed to \<^verbatim>\<open>render_object\<close> as an argument
  (\<open>None\<close> when it was never set).\<close>

record WireframeRenderer =
  projector :: Projector
  vertices_color :: string
  edges_color :: string

record FlatShadedRenderer = WireframeRenderer +
  bright_face_color :: string
  dark_face_color :: string

definition WireframeRenderer_init :: "Projector \<Rightarrow> WireframeRenderer" where
  "WireframeRenderer_init p =
     \<lparr>projector = p, vertices_color = ''#0000FF'', edges_color = ''#0000FF''\<rparr>"

definition FlatShadedRenderer_init :: "Projector \<Rightarrow> FlatShadedRenderer" where
  "FlatShadedRenderer_init p =
     \<lparr>projector = p, vertices_color = ''#0000FF'', edges_color = ''#0000FF'',
      bright_face_color = ''#0000FF'', dark_face_color = ''#00005F''\<rparr>"

text \<open>The pre-step of both renderers:
  \<^verbatim>\<open>obj.vertices*np.min([w, h])*0.35 + np.array([w/2, h/2, 0])\<close>, a new array.\<close>

definition canvas_vertices :: "int \<Rightarrow> int \<Rightarrow> vec3 list \<Rightarrow> vec3 list" where
  "canvas_vertices w h vs =
     map (\<lambda>v. vadd (xs_of v * real_of_int (min w h) * 0.35,
                     ys_of v * real_of_int (min w h) * 0.35,
                     zs_of v * real_of_int (min w h) * 0.35)
                    (real_of_int w / 2, real_of_int h / 2, 0)) vs"

text \<open>\<^verbatim>\<open>for x, y in vertices_2d: draw_canvas_point(x, y, ...)\<close>: a row that is not a
  pair cannot be unpacked.\<close>

fun draw_points :: "string \<Rightarrow> real list list \<Rightarrow> gui \<Rightarrow> error option \<times> gui" where
  "draw_points v_color [] g = (None, g)"
| "draw_points v_color (row # rest) g =
     (case row of
        [x, y] \<Rightarrow> draw_points v_color rest (draw_canvas_point x y v_color g)
      | _ \<Rightarrow> (Some ValueError, g))"

text \<open>\<^verbatim>\<open>for v_id in face: face_vertices.extend(vertices_2d[v_id])\<close>.\<close>

fun face_vertices :: "ndarray \<Rightarrow> int list \<Rightarrow> error + real list" where
  "face_vertices vertices_2d [] = Inr []"
| "face_vertices vertices_2d (v_id # ids) =
     (case getitem (rows vertices_2d) v_id of
        Inl e \<Rightarrow> Inl e
      | Inr row \<Rightarrow>
          (case face_vertices vertices_2d ids of
             Inl e \<Rightarrow> Inl e
           | Inr others \<Rightarrow> Inr (row @ others)))"

fun draw_wire_faces :: "string \<Rightarrow> ndarray \<Rightarrow> face list \<Rightarrow> gui \<Rightarrow> error option \<times> gui" where
  "draw_wire_faces e_color vertices_2d [] g = (None, g)"
| "draw_wire_faces e_color vertices_2d (f # fs) g =
     (case face_vertices vertices_2d (face_ids f) of
        Inl e \<Rightarrow> (Some e, g)
      | Inr xy \<Rightarrow>
          draw_wire_faces e_color vertices_2d fs (draw_canvas_polygon xy e_color [] g))"

definition WireframeRenderer_render_object ::
  "WireframeRenderer \<Rightarrow> gui option \<Rightarrow> Object \<Rightarrow> error option \<times> Object \<times> gui option" where
  "WireframeRenderer_render_object self self_gui obj =
     (case self_gui of
        None \<Rightarrow> (Some AssertionError, obj, None)
      | Some g \<Rightarrow>
          (case get_canvas_size g of
             (w, h) \<Rightarrow>
               (let vs = canvas_vertices w h (vertices obj);
                    g1 = clear_canvas g
                in case project (projector self) (ndarray_of_vertices vs) of
                     Inl e \<Rightarrow> (Some e, obj, Some g1)
                   | Inr vertices_2d \<Rightarrow>
                       (case draw_points (vertices_color self) (rows vertices_2d) g1 of
                          (Some e, g2) \<Rightarrow> (Some e, obj, Some g2)
                        | (None, g2) \<Rightarrow>
                            (case draw_wire_faces (edges_color self) vertices_2d (faces obj) g2 of
                               (Some e, g3) \<Rightarrow> (Some e, obj, Some g3)
                             | (None, g3) \<Rightarrow> (None, obj, Some (g3\<lparr>gui_obj := Some obj\<rparr>)))))))"

subsubsection \<open>The depth sort of the flat-shaded renderer\<close>

text \<open>The inner loop \<^verbatim>\<open>for v_id in face: x, y, z = obj.vertices[v_id]; z_avg += z\<close>,
  then \<^verbatim>\<open>z_avg /= 3\<close>.\<close>

fun sum_z :: "vec3 list \<Rightarrow> int list \<Rightarrow> real \<Rightarrow> error + real" where
  "sum_z vs [] z_avg = Inr z_avg"
| "sum_z vs (v_id # ids) z_avg =
     (case getitem vs v_id of
        Inl e \<Rightarrow> Inl e
      | Inr v \<Rightarrow> sum_z vs ids (z_avg + zs_of v))"

definition face_depth :: "vec3 list \<Rightarrow> face \<Rightarrow> error + real" where
  "face_depth vs f =
     (case sum_z vs (face_ids f) 0 of
        Inl e \<Rightarrow> Inl e
      | Inr s \<Rightarrow> Inr (s / 3))"

fun depth_face_ls :: "vec3 list \<Rightarrow> face list \<Rightarrow> error + (real \<times> face) list" where
  "depth_face_ls vs [] = Inr []"
| "depth_face_ls vs (f # fs) =
     (case face_depth vs f of
        Inl e \<Rightarrow> Inl e
      | Inr z \<Rightarrow>
          (case depth_face_ls vs fs of
             Inl e \<Rightarrow> Inl e
           | Inr rest \<Rightarrow> Inr ((z, f) # rest)))"

text \<open>Python's built-in \<^verbatim>\<open>sorted(xs, key=key, reverse=True)\<close>: descending in the key,
  and stable (elements with equal keys keep their order, also under
  \<^verbatim>\<open>reverse=True\<close>). An element is placed in front of the first element whose key is
  not larger than its own.\<close>

fun insert_desc :: "('a \<Rightarrow> real) \<Rightarrow> 'a \<Rightarrow> 'a list \<Rightarrow> 'a list" where
  "insert_desc key x [] = [x]"
| "insert_desc key x (y # ys) =
     (if key y \<le> key x then x # y # ys else y # insert_desc key x ys)"

definition py_sorted_reverse :: "('a \<Rightarrow> real) \<Rightarrow> 'a list \<Rightarrow> 'a list" where
  "py_sorted_reverse key xs = foldr (insert_desc key) xs []"

definition FlatShadedRenderer_sort_obj_faces_by_depth :: "Object \<Rightarrow> error option \<times> Object" where
  "FlatShadedRenderer_sort_obj_faces_by_depth obj =
     (case depth_face_ls (vertices obj) (faces obj) of
        Inl e \<Rightarrow> (Some e, obj)
      | Inr ls \<Rightarrow> (None, obj\<lparr>faces := map snd (py_sorted_reverse fst ls)\<rparr>))"

subsubsection \<open>The colour fader\<close>

text \<open>\<^verbatim>\<open>int(s, 16)\<close> on a slice \<open>s\<close> of at most two characters: surrounding
  white space is dropped (the characters 9 to 13, 32, 133 and 160, a character being a
  code point below 256), one sign is accepted, and what is left must be one or two
  hexadecimal digits of either case. (The prefix \<^verbatim>\<open>0x\<close> and the separator
  \<^verbatim>\<open>_\<close> need three characters to form a number, so they make such a slice
  invalid.)\<close>

definition hex_digit_val :: "char \<Rightarrow> nat option" where
  "hex_digit_val c =
     (let k = (of_char c :: nat)
      in if 48 \<le> k \<and> k \<le> 57 then Some (k - 48)
         else if 97 \<le> k \<and> k \<le> 102 then Some (k - 87)
         else if 65 \<le> k \<and> k \<le> 70 then Some (k - 55)
         else None)"

fun hex_value :: "string \<Rightarrow> nat \<Rightarrow> nat option" where
  "hex_value [] acc = Some acc"
| "hex_value (c # cs) acc =
     (case hex_digit_val c of
        None \<Rightarrow> None
      | Some d \<Rightarrow> hex_value cs (16 * acc + d))"

definition py_isspace :: "char \<Rightarrow> bool" where
  "py_isspace c =
     (let k = (of_char c :: nat) in (9 \<le> k \<and> k \<le> 13) \<or> k = 32 \<or> k = 133 \<or> k = 160)"

definition py_strip :: "string \<Rightarrow> string" where
  "py_strip s = rev (dropWhile py_isspace (rev (dropWhile py_isspace s)))"

definition hex_of_digits :: "int \<Rightarrow> string \<Rightarrow> error + int" where
  "hex_of_digits sign ds =
     (if ds = [] then Inl ValueError
      else case hex_value ds 0 of
             None \<Rightarrow> Inl ValueError
           | Some n \<Rightarrow> Inr (sign * int n))"

definition py_int16 :: "string \<Rightarrow> error + int" where
  "py_int16 s =
     (case py_strip s of
        [] \<Rightarrow> Inl ValueError
      | c # cs \<Rightarrow>
          if c = CHR ''+'' then hex_of_digits 1 cs
          else if c = CHR ''-'' then hex_of_digits (- 1) cs
          else hex_of_digits 1 (c # cs))"

text \<open>\<^verbatim>\<open>hex2rgb = lambda c: np.array([int(c.lstrip('#')[i:i + 2], 16) for i in (0, 2, 4)])\<close>.\<close>

definition hex2rgb :: "string \<Rightarrow> error + int \<times> int \<times> int" where
  "hex2rgb c =
     (let s = dropWhile (\<lambda>x. x = CHR ''#'') c
      in case py_int16 (take 2 s) of
           Inl e \<Rightarrow> Inl e
         | Inr r \<Rightarrow>
             (case py_int16 (take 2 (drop 2 s)) of
                Inl e \<Rightarrow> Inl e
              | Inr g \<Rightarrow>
                  (case py_int16 (take 2 (drop 4 s)) of
                     Inl e \<Rightarrow> Inl e
                   | Inr b \<Rightarrow> Inr (r, g, b))))"

text \<open>The format \<^verbatim>\<open>{:02x}\<close>: lower-case hexadecimal digits, padded with a zero to
  two characters, the sign of a negative number counting as one of them.\<close>

definition hex_char :: "nat \<Rightarrow> char" where
  "hex_char d = ''0123456789abcdef'' ! d"

function hex_digits :: "nat \<Rightarrow> string" where
  "hex_digits n = (if n < 16 then [hex_char n] else hex_digits (n div 16) @ [hex_char (n mod 16)])"
  by pat_completeness auto
termination
  by (relation "measure id") auto

declare hex_digits.simps [simp del]

definition format_02x :: "int \<Rightarrow> string" where
  "format_02x n =
     (if n < 0 then CHR ''-'' # hex_digits (nat (- n))
      else if n < 16 then CHR ''0'' # hex_digits (nat n)
      else hex_digits (nat n))"

text \<open>One channel of \<^verbatim>\<open>c1_rgb * alpha + c2_rgb * (1-alpha)\<close>.\<close>

definition fade_channel :: "int \<Rightarrow> int \<Rightarrow> npfloat \<Rightarrow> npfloat" where
  "fade_channel c1 c2 alpha =
     fl_add (fl_mul (Fin (real_of_int c1)) alpha)
            (fl_mul (Fin (real_of_int c2)) (fl_sub (Fin 1) alpha))"

definition FlatShadedRenderer_color_fader :: "string \<Rightarrow> string \<Rightarrow> npfloat \<Rightarrow> error + string" where
  "FlatShadedRenderer_color_fader color1 color2 alpha =
     (case hex2rgb color1 of
        Inl e \<Rightarrow> Inl e
      | Inr (r1, g1, b1) \<Rightarrow>
          (case hex2rgb color2 of
             Inl e \<Rightarrow> Inl e
           | Inr (r2, g2, b2) \<Rightarrow>
               (case py_int (fade_channel r1 r2 alpha) of
                  Inl e \<Rightarrow> Inl e
                | Inr r \<Rightarrow>
                    (case py_int (fade_channel g1 g2 alpha) of
                       Inl e \<Rightarrow> Inl e
                     | Inr g \<Rightarrow>
                         (case py_int (fade_channel b1 b2 alpha) of
                            Inl e \<Rightarrow> Inl e
                          | Inr b \<Rightarrow>
                              Inr (CHR ''#'' # format_02x r @ format_02x g @ format_02x b))))))"

subsubsection \<open>Flat shading\<close>

definition np_cross :: "vec3 \<Rightarrow> vec3 \<Rightarrow> vec3" where
  "np_cross u v =
     (ys_of u * zs_of v - zs_of u * ys_of v,
      zs_of u * xs_of v - xs_of u * zs_of v,
      xs_of u * ys_of v - ys_of u * xs_of v)"

definition np_linalg_norm :: "vec3 \<Rightarrow> real" where
  "np_linalg_norm v = sqrt ((xs_of v)\<^sup>2 + (ys_of v)\<^sup>2 + (zs_of v)\<^sup>2)"

text \<open>The brightness of a face: \<^verbatim>\<open>P1, P2, P3 = [vertices[face[i]] for i in range(3)]\<close>,
  \<^verbatim>\<open>N = np.cross(P2 - P1, P3 - P1)\<close>, \<^verbatim>\<open>N /= np.linalg.norm(N)\<close>,
  \<^verbatim>\<open>np.abs(N[2])\<close>. The division is numpy's: it does not raise.\<close>

definition face_alpha :: "vec3 list \<Rightarrow> face \<Rightarrow> error + npfloat" where
  "face_alpha vs f =
     (case f of
        (i, j, k) \<Rightarrow>
          (case getitem vs i of
             Inl e \<Rightarrow> Inl e
           | Inr P1 \<Rightarrow>
               (case getitem vs j of
                  Inl e \<Rightarrow> Inl e
                | Inr P2 \<Rightarrow>
                    (case getitem vs k of
                       Inl e \<Rightarrow> Inl e
                     | Inr P3 \<Rightarrow>
                         (let U = vsub P2 P1;
                              V = vsub P3 P1;
                              N = np_cross U V;
                              n = np_linalg_norm N;
                              N1 = (np_divide (xs_of N) n, np_divide (ys_of N) n, np_divide (zs_of N) n)
                          in Inr (fl_abs (snd (snd N1))))))))"

fun draw_shaded_faces ::
  "FlatShadedRenderer \<Rightarrow> vec3 list \<Rightarrow> ndarray \<Rightarrow> face list \<Rightarrow> gui \<Rightarrow> error option \<times> gui" where
  "draw_shaded_faces self vs vertices_2d [] g = (None, g)"
| "draw_shaded_faces self vs vertices_2d (f # fs) g =
     (case face_alpha vs f of
        Inl e \<Rightarrow> (Some e, g)
      | Inr norm_z_axis_component \<Rightarrow>
          (case FlatShadedRenderer_color_fader (bright_face_color self) (dark_face_color self)
                  norm_z_axis_component of
             Inl e \<Rightarrow> (Some e, g)
           | Inr color_hex \<Rightarrow>
               (case face_vertices vertices_2d (face_ids f) of
                  Inl e \<Rightarrow> (Some e, g)
                | Inr xy \<Rightarrow>
                    draw_shaded_faces self vs vertices_2d fs
                      (draw_canvas_polygon xy (edges_color self) color_hex g))))"

definition FlatShadedRenderer_render_object ::
  "FlatShadedRenderer \<Rightarrow> gui option \<Rightarrow> Object \<Rightarrow> error option \<times> Object \<times> gui option" where
  "FlatShadedRenderer_render_object self self_gui obj =
     (case self_gui of
        None \<Rightarrow> (Some AssertionError, obj, None)
      | Some g \<Rightarrow>
          (case get_canvas_size g of
             (w, h) \<Rightarrow>
               (let vs = canvas_vertices w h (vertices obj)
                in case FlatShadedRenderer_sort_obj_faces_by_depth obj of
                     (Some e, obj1) \<Rightarrow> (Some e, obj1, Some g)
                   | (None, obj1) \<Rightarrow>
                       (let g1 = clear_canvas g
                        in case project (projector self) (ndarray_of_vertices vs) of
                             Inl e \<Rightarrow> (Some e, obj1, Some g1)
                           | Inr vertices_2d \<Rightarrow>
                               (case draw_points (vertices_color self) (rows vertices_2d) g1 of
                                  (Some e, g2) \<Rightarrow> (Some e, obj1, Some g2)
                                | (None, g2) \<Rightarrow>
                                    (case draw_shaded_faces self vs vertices_2d (faces obj1) g2 of
                                       (Some e, g3) \<Rightarrow> (Some e, obj1, Some g3)
                                     | (None, g3) \<Rightarrow>
                                         (None, obj1, Some (g3\<lparr>gui_obj := Some obj1\<rparr>))))))))"

subsection \<open>Notions of the specification\<close>

text \<open>The elementary rotations about the three axes and the product of 3 x 3
  matrices, as the specification names them: \<open>Rz(yaw) \<cdot> Ry(pitch) \<cdot> Rx(roll)\<close>.\<close>

definition spec_Rx :: "real \<Rightarrow> mat3" where
  "spec_Rx r = ((1, 0, 0), (0, cos r, - sin r), (0, sin r, cos r))"

definition spec_Ry :: "real \<Rightarrow> mat3" where
  "spec_Ry b = ((cos b, 0, sin b), (0, 1, 0), (- sin b, 0, cos b))"

definition spec_Rz :: "real \<Rightarrow> mat3" where
  "spec_Rz a = ((cos a, - sin a, 0), (sin a, cos a, 0), (0, 0, 1))"

fun matmul3 :: "mat3 \<Rightarrow> mat3 \<Rightarrow> mat3" where
  "matmul3 (r1, r2, r3) B = (vecmat r1 B, vecmat r2 B, vecmat r3 B)"

definition identity3 :: mat3 where
  "identity3 = ((1, 0, 0), (0, 1, 0), (0, 0, 1))"

text \<open>The Euclidean distance of two vertices.\<close>

definition dist3 :: "vec3 \<Rightarrow> vec3 \<Rightarrow> real" where
  "dist3 u v = np_linalg_norm (vsub u v)"


text \<open>The invariant of the data model: every index of every face is in
  \<open>[0, len(vertices))\<close>.\<close>

definition index_ok :: "nat \<Rightarrow> int \<Rightarrow> bool" where
  "index_ok n i = (0 \<le> i \<and> i < int n)"

definition face_ok :: "nat \<Rightarrow> face \<Rightarrow> bool" where
  "face_ok n f = (case f of (i, j, k) \<Rightarrow> index_ok n i \<and> index_ok n j \<and> index_ok n k)"

definition mesh_ok :: "Object \<Rightarrow> bool" where
  "mesh_ok obj = list_all (face_ok (length (vertices obj))) (faces obj)"

text \<open>A face of zero area: the cross product of its two edge vectors is the zero
  vector.\<close>

definition zero_area :: "vec3 list \<Rightarrow> face \<Rightarrow> bool" where
  "zero_area vs f =
     (case f of
        (i, j, k) \<Rightarrow>
          np_cross (vsub (vs ! nat j) (vs ! nat i)) (vsub (vs ! nat k) (vs ! nat i)) = (0, 0, 0))"



text \<open>The canvas position of a vertex on a surface of size \<open>w \<times> h\<close>, and the drawing
  calls a wireframe render is expected to issue for a vertex and for a face.\<close>

definition canvas_xy :: "int \<Rightarrow> int \<Rightarrow> vec3 \<Rightarrow> real list" where
  "canvas_xy w h v =
     [xs_of v * real_of_int (min w h) * 0.35 + real_of_int w / 2,
      ys_of v * real_of_int (min w h) * 0.35 + real_of_int h / 2]"

definition point_call :: "int \<Rightarrow> int \<Rightarrow> string \<Rightarrow> vec3 \<Rightarrow> gui_call" where
  "point_call w h color v = DrawCanvasPoint (canvas_xy w h v ! 0) (canvas_xy w h v ! 1) color"

definition outline_call :: "int \<Rightarrow> int \<Rightarrow> string \<Rightarrow> vec3 list \<Rightarrow> face \<Rightarrow> gui_call" where
  "outline_call w h color vs f =
     DrawCanvasPolygon (concat (map (\<lambda>i. canvas_xy w h (vs ! nat i)) (face_ids f))) color []"

definition in_unit_box :: "vec3 \<Rightarrow> bool" where
  "in_unit_box v = (\<bar>xs_of v\<bar> \<le> 1 \<and> \<bar>ys_of v\<bar> \<le> 1 \<and> \<bar>zs_of v\<bar> \<le> 1)"

definition near_center :: "int \<Rightarrow> int \<Rightarrow> real list \<Rightarrow> bool" where
  "near_center w h xy =
     (\<bar>xy ! 0 - real_of_int w / 2\<bar> \<le> 0.35 * \<bar>real_of_int (min w h)\<bar>
      \<and> \<bar>xy ! 1 - real_of_int h / 2\<bar> \<le> 0.35 * \<bar>real_of_int (min w h)\<bar>)"







subsection \<open>Concrete meshes and surfaces\<close>

definition unit_cube :: Object where
  "unit_cube =
     \<lparr>vertices = [(-1, -1, -1), (1, -1, -1), (1, 1, -1), (-1, 1, -1),
                  (-1, -1, 1), (1, -1, 1), (1, 1, 1), (-1, 1, 1)],
      faces = [(0, 1, 2), (0, 2, 3), (4, 5, 6), (4, 6, 7), (0, 1, 5), (0, 5, 4),
               (2, 3, 7), (2, 7, 6), (1, 2, 6), (1, 6, 5), (0, 3, 7), (0, 7, 4)]\<rparr>"

definition surface_200 :: gui where
  "surface_200 = \<lparr>canvas_size = (200, 200), calls = [], gui_obj = None\<rparr>"

text \<open>A mesh whose only face repeats a vertex (vertices 0 and 1 coincide).\<close>

definition degenerate_mesh :: Object where
  "degenerate_mesh = \<lparr>vertices = [(0, 0, 0), (0, 0, 0), (1, 0, 0)], faces = [(0, 1, 2)]\<rparr>"




section \<open>Properties\<close>

subsection \<open>Projectors\<close>

text \<open>C6. On an array of shape (N, M) the orthographic projector returns, when N is
  positive and M is 3, the array of shape (N, 2) whose rows are the first two entries of
  the rows of its argument, unchanged; when N is 0 or M is not 3 it fails with an
  assertion error.\<close>

theorem orthographic_project_columns:
  assumes "shape vs = [N, M]" and "length (rows vs) = N"
    and "list_all (\<lambda>r. length r = M) (rows vs)"
  shows "OrthographicProjector_project vs =
           (if 0 < N \<and> M = 3
            then Inr \<lparr>shape = [N, 2], rows = map (\<lambda>r. [r ! 0, r ! 1]) (rows vs)\<rparr>
            else Inl AssertionError)"
proof (cases "0 < N \<and> M = 3")
  case True
  have "take 2 r = [r ! 0, r ! 1]" if "length r = 3" for r :: "real list"
  proof -
    from that obtain a b c where "r = [a, b, c]"
      by (cases r; cases "tl r"; cases "tl (tl r)") auto
    then show ?thesis by simp
  qed
  with assms True have "map (take 2) (rows vs) = map (\<lambda>r. [r ! 0, r ! 1]) (rows vs)"
    by (auto simp: list_all_iff)
  with assms True show ?thesis
    by (simp add: OrthographicProjector_project_def)
next
  case False
  with assms show ?thesis
    by (auto simp: OrthographicProjector_project_def)
qed

theorem orthographic_project_columns_witness:
  "OrthographicProjector_project \<lparr>shape = [2, 3], rows = [[1, 2, 3], [4, 5, 6]]\<rparr>
     = Inr \<lparr>shape = [2, 2], rows = [[1, 2], [4, 5]]\<rparr>
   \<and> OrthographicProjector_project \<lparr>shape = [0, 3], rows = []\<rparr> = Inl AssertionError
   \<and> OrthographicProjector_project \<lparr>shape = [2, 2], rows = [[1, 2], [4, 5]]\<rparr> = Inl AssertionError"
  using orthographic_project_columns [of "\<lparr>shape = [2, 3], rows = [[1, 2, 3], [4, 5, 6]]\<rparr>" 2 3]
    orthographic_project_columns [of "\<lparr>shape = [0, 3], rows = []\<rparr>" 0 3]
    orthographic_project_columns [of "\<lparr>shape = [2, 2], rows = [[1, 2], [4, 5]]\<rparr>" 2 2]
  by simp

text \<open>C8. The perspective projector fails with \<open>NotImplementedError\<close> on every
  argument, called directly or through the projector interface; it never returns an
  array.\<close>

theorem perspective_project_not_implemented:
  "PerspectiveProjector_project vs = Inl NotImplementedError
   \<and> project PerspectiveProjector vs = Inl NotImplementedError"
  by (simp add: PerspectiveProjector_project_def)

theorem perspective_project_not_implemented_witness:
  "project PerspectiveProjector (ndarray_of_vertices (vertices unit_cube)) = Inl NotImplementedError"
  using perspective_project_not_implemented [of "ndarray_of_vertices (vertices unit_cube)"]
  by simp

subsection \<open>The depth sort\<close>

lemma insert_desc_mset: "mset (insert_desc key x ys) = add_mset x (mset ys)"
  by (induction ys) simp_all




lemma py_sorted_reverse_mset: "mset (py_sorted_reverse key xs) = mset xs"
  by (induction xs) (simp_all add: py_sorted_reverse_def insert_desc_mset)





lemma getitem_in_range: "index_ok (length xs) i \<Longrightarrow> getitem xs i = Inr (xs ! nat i)"
  by (simp add: getitem_def index_ok_def)



lemma depth_face_ls_faces: "depth_face_ls vs fs = Inr ls \<Longrightarrow> map snd ls = fs"
proof (induction fs arbitrary: ls)
  case Nil
  then show ?case by simp
next
  case (Cons f fs)
  then show ?case by (auto split: sum.splits)
qed






lemma sort_keeps_mesh:
  "vertices (snd (FlatShadedRenderer_sort_obj_faces_by_depth obj)) = vertices obj"
  "mset (faces (snd (FlatShadedRenderer_sort_obj_faces_by_depth obj))) = mset (faces obj)"
proof -
  show "vertices (snd (FlatShadedRenderer_sort_obj_faces_by_depth obj)) = vertices obj"
    by (simp add: FlatShadedRenderer_sort_obj_faces_by_depth_def split: sum.split)
  show "mset (faces (snd (FlatShadedRenderer_sort_obj_faces_by_depth obj))) = mset (faces obj)"
  proof (cases "depth_face_ls (vertices obj) (faces obj)")
    case (Inl e)
    then show ?thesis
      by (simp add: FlatShadedRenderer_sort_obj_faces_by_depth_def)
  next
    case (Inr ls)
    have "mset (map snd (py_sorted_reverse fst ls)) = mset (map snd ls)"
      by (simp add: py_sorted_reverse_mset)
    also have "\<dots> = mset (faces obj)"
      using depth_face_ls_faces [OF Inr] by simp
    finally show ?thesis
      using Inr by (simp add: FlatShadedRenderer_sort_obj_faces_by_depth_def)
  qed
qed

lemma sorted_faces_set:
  "set (faces (snd (FlatShadedRenderer_sort_obj_faces_by_depth obj))) = set (faces obj)"
  using sort_keeps_mesh(2) [of obj] by (rule mset_eq_setD)

text \<open>C9. For every mesh, whether the depth sort returns or raises, the vertices after
  the call are the vertices before it, and the face list after the call holds the same
  triples with the same multiplicities, hence has the same length.\<close>

theorem depth_sort_permutes_faces:
  "vertices (snd (FlatShadedRenderer_sort_obj_faces_by_depth obj)) = vertices obj
   \<and> mset (faces (snd (FlatShadedRenderer_sort_obj_faces_by_depth obj))) = mset (faces obj)
   \<and> length (faces (snd (FlatShadedRenderer_sort_obj_faces_by_depth obj))) = length (faces obj)"
proof -
  have "size (mset (faces (snd (FlatShadedRenderer_sort_obj_faces_by_depth obj))))
          = size (mset (faces obj))"
    by (simp only: sort_keeps_mesh)
  then have "length (faces (snd (FlatShadedRenderer_sort_obj_faces_by_depth obj)))
          = length (faces obj)"
    by simp
  with sort_keeps_mesh [of obj] show ?thesis by simp
qed

theorem depth_sort_permutes_faces_witness:
  "vertices (snd (FlatShadedRenderer_sort_obj_faces_by_depth unit_cube)) = vertices unit_cube
   \<and> mset (faces (snd (FlatShadedRenderer_sort_obj_faces_by_depth unit_cube))) = mset (faces unit_cube)
   \<and> length (faces (snd (FlatShadedRenderer_sort_obj_faces_by_depth unit_cube))) = 12"
  using depth_sort_permutes_faces [of unit_cube]
  by (simp add: unit_cube_def)

subsection \<open>The wireframe renderer\<close>

lemma canvas_vertices_rows:
  "map (take 2) (map coords (canvas_vertices w h vs)) = map (canvas_xy w h) vs"
proof -
  have "take 2 (coords (vadd (xs_of v * m * 0.35, ys_of v * m * 0.35, zs_of v * m * 0.35) (a, b, 0)))
          = [xs_of v * m * 0.35 + a, ys_of v * m * 0.35 + b]" for v :: vec3 and m a b :: real
    by simp
  then show ?thesis
    by (simp add: canvas_vertices_def canvas_xy_def)
qed

lemma project_canvas_vertices:
  assumes "vs \<noteq> []"
  shows "OrthographicProjector_project (ndarray_of_vertices (canvas_vertices w h vs)) =
           Inr \<lparr>shape = [length vs, 2], rows = map (canvas_xy w h) vs\<rparr>"
proof -
  let ?a = "ndarray_of_vertices (canvas_vertices w h vs)"
  have "shape ?a = [length vs, 3]"
    by (simp add: ndarray_of_vertices_def canvas_vertices_def)
  moreover have "map (take 2) (rows ?a) = map (canvas_xy w h) vs"
    using canvas_vertices_rows [of w h vs] by (simp add: ndarray_of_vertices_def)
  ultimately show ?thesis
    using assms by (simp add: OrthographicProjector_project_def)
qed

lemma draw_points_calls:
  "draw_points color (map (canvas_xy w h) vs) g =
     (None, g\<lparr>calls := calls g @ map (point_call w h color) vs\<rparr>)"
proof (induction vs arbitrary: g)
  case Nil
  then show ?case by simp
next
  case (Cons v vs)
  have "canvas_xy w h v = [canvas_xy w h v ! 0, canvas_xy w h v ! 1]"
    by (simp add: canvas_xy_def)
  then show ?case
    using Cons.IH [of "draw_canvas_point (canvas_xy w h v ! 0) (canvas_xy w h v ! 1) color g"]
    by (simp add: canvas_xy_def draw_canvas_point_def point_call_def)
qed

lemma face_vertices_ok:
  assumes "list_all (index_ok (length vs)) ids"
  shows "face_vertices \<lparr>shape = sh, rows = map (canvas_xy w h) vs\<rparr> ids =
           Inr (concat (map (\<lambda>i. canvas_xy w h (vs ! nat i)) ids))"
  using assms
proof (induction ids)
  case Nil
  then show ?case by simp
next
  case (Cons i ids)
  then have "index_ok (length (map (canvas_xy w h) vs)) i" by simp
  moreover from Cons.prems have "0 \<le> i" and "i < int (length vs)"
    by (simp_all add: index_ok_def)
  then have "nat i < length vs" by linarith
  ultimately have "getitem (map (canvas_xy w h) vs) i = Inr (canvas_xy w h (vs ! nat i))"
    by (simp add: getitem_def index_ok_def)
  with Cons show ?case by simp
qed

lemma face_ok_ids: "face_ok n f \<Longrightarrow> list_all (index_ok n) (face_ids f)"
  by (cases f) (simp add: face_ok_def)

lemma draw_wire_faces_calls:
  assumes "list_all (face_ok (length vs)) fs"
  shows "draw_wire_faces color \<lparr>shape = sh, rows = map (canvas_xy w h) vs\<rparr> fs g =
           (None, g\<lparr>calls := calls g @ map (outline_call w h color vs) fs\<rparr>)"
  using assms
proof (induction fs arbitrary: g)
  case Nil
  then show ?case by simp
next
  case (Cons f fs)
  then have "list_all (index_ok (length vs)) (face_ids f)"
    by (simp add: face_ok_ids)
  from face_vertices_ok [OF this] Cons show ?case
    by (simp add: draw_canvas_polygon_def outline_call_def)
qed

lemma canvas_xy_near_center:
  assumes "in_unit_box v"
  shows "near_center w h (canvas_xy w h v)"
proof -
  have b: "\<bar>c * m * 0.35 + a - a\<bar> \<le> 0.35 * \<bar>m\<bar>" if "\<bar>c\<bar> \<le> 1" for c m a :: real
  proof -
    have "\<bar>c * m * 0.35 + a - a\<bar> = \<bar>c\<bar> * (0.35 * \<bar>m\<bar>)" by (simp add: abs_mult)
    also have "\<dots> \<le> 1 * (0.35 * \<bar>m\<bar>)"
      using that by (intro mult_right_mono) simp_all
    finally show ?thesis by simp
  qed
  from assms have "\<bar>xs_of v\<bar> \<le> 1" and "\<bar>ys_of v\<bar> \<le> 1"
    by (simp_all add: in_unit_box_def)
  then show ?thesis
    unfolding near_center_def canvas_xy_def nth_Cons_0 One_nat_def nth_Cons_Suc
    by (intro conjI b)
qed

lemma mesh_ok_no_vertices:
  assumes "mesh_ok obj" and "vertices obj = []"
  shows "faces obj = []"
proof (cases "faces obj")
  case Nil
  then show ?thesis .
next
  case (Cons f fs)
  with assms have "face_ok 0 f" by (simp add: mesh_ok_def)
  then have False
    by (cases f) (auto simp: face_ok_def index_ok_def)
  then show ?thesis ..
qed

text \<open>C7. Let a mesh satisfy the invariant of the data model and have its vertices in
  the range \<open>[-1, 1]\<close>, and let the surface have size \<open>w \<times> h\<close>. A wireframe render
  through the orthographic projector clears the surface and then issues one point call per
  vertex, in vertex order, followed by one polygon call per face, in the stored face
  order, each at the positions \<open>x * min(w, h) * 0.35 + w/2\<close> and
  \<open>y * min(w, h) * 0.35 + h/2\<close> of the vertices; every position is within
  \<open>0.35 * min(w, h)\<close> of the centre of the surface. (On a mesh with no vertices the
  projector's assertion fails after the surface is cleared, and nothing is drawn.)\<close>

theorem wireframe_render_draw_calls:
  assumes "mesh_ok obj" and "list_all in_unit_box (vertices obj)"
    and "canvas_size g = (w, h)" and "projector self = OrthographicProjector"
  shows "WireframeRenderer_render_object self (Some g) obj =
           (if vertices obj = [] then Some AssertionError else None, obj,
            Some (g\<lparr>calls := calls g @ [ClearCanvas]
                       @ map (point_call w h (vertices_color self)) (vertices obj)
                       @ map (outline_call w h (edges_color self) (vertices obj)) (faces obj),
                    gui_obj := if vertices obj = [] then None else Some obj\<rparr>))
         \<and> list_all (\<lambda>v. near_center w h (canvas_xy w h v)) (vertices obj)"
proof -
  have near: "list_all (\<lambda>v. near_center w h (canvas_xy w h v)) (vertices obj)"
    using assms(2) by (simp add: list_all_iff canvas_xy_near_center)
  show ?thesis
  proof (cases "vertices obj = []")
    case True
    with assms(1) have "faces obj = []" by (rule mesh_ok_no_vertices)
    with True show ?thesis
      by (simp add: WireframeRenderer_render_object_def get_canvas_size_def assms(3) assms(4)
          OrthographicProjector_project_def ndarray_of_vertices_def canvas_vertices_def
          clear_canvas_def)
  next
    case False
    with assms(1) near show ?thesis
      by (simp add: WireframeRenderer_render_object_def get_canvas_size_def assms(3) assms(4)
          project_canvas_vertices draw_points_calls draw_wire_faces_calls
          mesh_ok_def clear_canvas_def Let_def)
  qed
qed

theorem wireframe_render_draw_calls_witness:
  "WireframeRenderer_render_object (WireframeRenderer_init OrthographicProjector)
     (Some surface_200) unit_cube =
   (None, unit_cube,
    Some (surface_200\<lparr>calls :=
       [ClearCanvas,
        DrawCanvasPoint 30 30 ''#0000FF'',
        DrawCanvasPoint 170 30 ''#0000FF'',
        DrawCanvasPoint 170 170 ''#0000FF'',
        DrawCanvasPoint 30 170 ''#0000FF'',
        DrawCanvasPoint 30 30 ''#0000FF'',
        DrawCanvasPoint 170 30 ''#0000FF'',
        DrawCanvasPoint 170 170 ''#0000FF'',
        DrawCanvasPoint 30 170 ''#0000FF'',
        DrawCanvasPolygon [30, 30, 170, 30, 170, 170] ''#0000FF'' [],
        DrawCanvasPolygon [30, 30, 170, 170, 30, 170] ''#0000FF'' [],
        DrawCanvasPolygon [30, 30, 170, 30, 170, 170] ''#0000FF'' [],
        DrawCanvasPolygon [30, 30, 170, 170, 30, 170] ''#0000FF'' [],
        DrawCanvasPolygon [30, 30, 170, 30, 170, 30] ''#0000FF'' [],
        DrawCanvasPolygon [30, 30, 170, 30, 30, 30] ''#0000FF'' [],
        DrawCanvasPolygon [170, 170, 30, 170, 30, 170] ''#0000FF'' [],
        DrawCanvasPolygon [170, 170, 30, 170, 170, 170] ''#0000FF'' [],
        DrawCanvasPolygon [170, 30, 170, 170, 170, 170] ''#0000FF'' [],
        DrawCanvasPolygon [170, 30, 170, 170, 170, 30] ''#0000FF'' [],
        DrawCanvasPolygon [30, 30, 30, 170, 30, 170] ''#0000FF'' [],
        DrawCanvasPolygon [30, 30, 30, 170, 30, 30] ''#0000FF'' []],
      gui_obj := Some unit_cube\<rparr>))"
proof -
  have "mesh_ok unit_cube" and "list_all in_unit_box (vertices unit_cube)"
    by (simp_all add: unit_cube_def mesh_ok_def face_ok_def index_ok_def in_unit_box_def)
  moreover have "canvas_size surface_200 = (200, 200)"
    and "projector (WireframeRenderer_init OrthographicProjector) = OrthographicProjector"
    by (simp_all add: surface_200_def WireframeRenderer_init_def)
  ultimately show ?thesis
    using wireframe_render_draw_calls
      [of unit_cube surface_200 200 200 "WireframeRenderer_init OrthographicProjector"]
    by (simp add: unit_cube_def surface_200_def WireframeRenderer_init_def point_call_def
        outline_call_def canvas_xy_def)
qed

text \<open>C10. Whatever the renderer's style and projector, the surface and the mesh, and
  whether the call returns or raises, the mesh after a wireframe render is the mesh before
  it: vertices and face list are unchanged.\<close>

theorem wireframe_render_leaves_mesh:
  "fst (snd (WireframeRenderer_render_object self self_gui obj)) = obj"
  by (simp add: WireframeRenderer_render_object_def Let_def
      split: option.split prod.split sum.split)

theorem wireframe_render_leaves_mesh_witness:
  "fst (snd (WireframeRenderer_render_object (WireframeRenderer_init OrthographicProjector)
      (Some surface_200) unit_cube)) = unit_cube
   \<and> fst (snd (WireframeRenderer_render_object (WireframeRenderer_init PerspectiveProjector)
      (Some surface_200) unit_cube)) = unit_cube"
  using wireframe_render_leaves_mesh [of "WireframeRenderer_init OrthographicProjector" "Some surface_200" unit_cube]
    wireframe_render_leaves_mesh [of "WireframeRenderer_init PerspectiveProjector" "Some surface_200" unit_cube]
  by simp

subsection \<open>Hexadecimal colours\<close>






























subsection \<open>Flat shading of a degenerate face\<close>

lemma hex_of_digits_error: "hex_of_digits sign ds = Inl e \<Longrightarrow> e = ValueError"
  by (simp add: hex_of_digits_def split: if_splits option.splits)

lemma py_int16_error: "py_int16 s = Inl e \<Longrightarrow> e = ValueError"
  by (auto simp: py_int16_def split: list.splits if_splits dest: hex_of_digits_error)

lemma hex2rgb_error: "hex2rgb c = Inl e \<Longrightarrow> e = ValueError"
  by (auto simp: hex2rgb_def Let_def split: sum.splits dest: py_int16_error)

lemma fade_channel_nan: "fade_channel c1 c2 NaN = NaN"
  by (simp add: fade_channel_def fl_sub_def)

lemma color_fader_nan: "FlatShadedRenderer_color_fader color1 color2 NaN = Inl ValueError"
  by (auto simp: FlatShadedRenderer_color_fader_def fade_channel_nan
      split: sum.splits dest: hex2rgb_error)

lemma face_alpha_zero_area:
  assumes "face_ok (length vs) f" and "zero_area vs f"
  shows "face_alpha vs f = Inr NaN"
proof -
  obtain i j k where f: "f = (i, j, k)" by (cases f)
  from assms(1) have "getitem vs i = Inr (vs ! nat i)" "getitem vs j = Inr (vs ! nat j)"
    "getitem vs k = Inr (vs ! nat k)"
    by (simp_all add: f face_ok_def getitem_in_range)
  moreover from assms(2)
  have "np_cross (vsub (vs ! nat j) (vs ! nat i)) (vsub (vs ! nat k) (vs ! nat i)) = (0, 0, 0)"
    by (simp add: f zero_area_def)
  ultimately show ?thesis
    by (simp add: f face_alpha_def np_linalg_norm_def np_divide_def)
qed

lemma canvas_edge:
  assumes "a < length vs" and "b < length vs"
  shows "vsub (canvas_vertices w h vs ! a) (canvas_vertices w h vs ! b)
           = vscale (real_of_int (min w h) * 0.35) (vsub (vs ! a) (vs ! b))"
proof -
  obtain x y z where p: "vs ! a = (x, y, z)" by (cases "vs ! a")
  obtain x' y' z' where q: "vs ! b = (x', y', z')" by (cases "vs ! b")
  from assms show ?thesis
    by (simp add: canvas_vertices_def p q algebra_simps)
qed

lemma cross_vscale: "np_cross (vscale k u) (vscale k v) = vscale (k * k) (np_cross u v)"
  by (cases u; cases v) (simp add: np_cross_def algebra_simps)

lemma zero_area_on_canvas:
  assumes "face_ok (length vs) f" and "zero_area vs f"
  shows "zero_area (canvas_vertices w h vs) f"
proof -
  obtain i j k where f: "f = (i, j, k)" by (cases f)
  from assms(1) have n: "nat i < length vs" "nat j < length vs" "nat k < length vs"
    by (auto simp: f face_ok_def index_ok_def)
  from assms(2)
  have "np_cross (vsub (vs ! nat j) (vs ! nat i)) (vsub (vs ! nat k) (vs ! nat i)) = (0, 0, 0)"
    by (simp add: f zero_area_def)
  then show ?thesis
    unfolding f zero_area_def prod.case canvas_edge [OF n(2) n(1)] canvas_edge [OF n(3) n(1)]
      cross_vscale
    by simp
qed

lemma draw_shaded_faces_nan:
  assumes "f \<in> set fs" and "face_alpha vs f = Inr NaN"
  shows "fst (draw_shaded_faces self vs vertices_2d fs g) \<noteq> None"
  using assms(1)
proof (induction fs arbitrary: g)
  case Nil
  then show ?case by simp
next
  case (Cons f' fs)
  show ?case
  proof (cases "f' = f")
    case True
    with assms(2) show ?thesis by (simp add: color_fader_nan)
  next
    case False
    with Cons.prems have "f \<in> set fs" by simp
    from Cons.IH [OF this] show ?thesis
      by (simp split: sum.split)
  qed
qed

text \<open>Whatever the renderer and the surface: a flat-shaded render of a mesh that
  satisfies the invariant of the data model and has a face of zero area ends by an
  exception.\<close>

lemma flat_shaded_zero_area_raises:
  assumes "mesh_ok obj" and "f \<in> set (faces obj)" and "zero_area (vertices obj) f"
  shows "fst (FlatShadedRenderer_render_object self self_gui obj) \<noteq> None"
proof (cases self_gui)
  case None
  then show ?thesis by (simp add: FlatShadedRenderer_render_object_def)
next
  case (Some g)
  obtain w h where wh: "get_canvas_size g = (w, h)" by (cases "get_canvas_size g")
  let ?vs = "canvas_vertices w h (vertices obj)"
  obtain e obj1 where s: "FlatShadedRenderer_sort_obj_faces_by_depth obj = (e, obj1)"
    by (cases "FlatShadedRenderer_sort_obj_faces_by_depth obj")
  from assms(1,2) have ok: "face_ok (length (vertices obj)) f"
    by (simp add: mesh_ok_def list_all_iff)
  then have "face_ok (length ?vs) f"
    by (simp add: canvas_vertices_def)
  from face_alpha_zero_area [OF this zero_area_on_canvas [OF ok assms(3)]]
  have nan: "face_alpha ?vs f = Inr NaN" .
  from sorted_faces_set [of obj] s assms(2) have "f \<in> set (faces obj1)" by simp
  from draw_shaded_faces_nan [OF this nan]
  have "draw_shaded_faces self ?vs vertices_2d (faces obj1) g' \<noteq> (None, g'')"
    for vertices_2d g' g''
    by (metis fst_conv)
  then show ?thesis
    by (auto simp: FlatShadedRenderer_render_object_def Some wh s Let_def
        split: option.split sum.split prod.split)
qed

text \<open>C1. The mesh \<open>degenerate_mesh\<close> has one face, whose first two vertices
  coincide: it has zero area. On a 200 x 200 surface the normal of that face is the zero vector, its
  division by the norm 0 gives \<^verbatim>\<open>nan\<close> as the brightness, the colour fader raises
  \<^verbatim>\<open>ValueError\<close> on it, and the flat-shaded render ends by that exception after
  the three vertex points were drawn: no polygon is drawn.\<close>

theorem flat_shaded_degenerate_face_raises:
  "zero_area (vertices degenerate_mesh) (0, 1, 2)
   \<and> face_alpha (canvas_vertices 200 200 (vertices degenerate_mesh)) (0, 1, 2) = Inr NaN
   \<and> FlatShadedRenderer_color_fader ''#0000FF'' ''#00005F'' NaN = Inl ValueError
   \<and> FlatShadedRenderer_render_object (FlatShadedRenderer_init OrthographicProjector)
        (Some surface_200) degenerate_mesh
      = (Some ValueError, degenerate_mesh,
         Some (surface_200\<lparr>calls :=
            [ClearCanvas,
             DrawCanvasPoint 100 100 ''#0000FF'',
             DrawCanvasPoint 100 100 ''#0000FF'',
             DrawCanvasPoint 170 100 ''#0000FF'']\<rparr>))"
proof -
  have a: "face_alpha (canvas_vertices 200 200 (vertices degenerate_mesh)) (0, 1, 2) = Inr NaN"
    by (simp add: face_alpha_def canvas_vertices_def degenerate_mesh_def getitem_def
        np_cross_def np_linalg_norm_def np_divide_def)
  have s: "FlatShadedRenderer_sort_obj_faces_by_depth degenerate_mesh = (None, degenerate_mesh)"
    by (simp add: FlatShadedRenderer_sort_obj_faces_by_depth_def degenerate_mesh_def
        face_depth_def getitem_def py_sorted_reverse_def)
  have p: "OrthographicProjector_project
             (ndarray_of_vertices (canvas_vertices 200 200 (vertices degenerate_mesh)))
           = Inr \<lparr>shape = [3, 2], rows = [[100, 100], [100, 100], [170, 100]]\<rparr>"
    by (simp add: OrthographicProjector_project_def ndarray_of_vertices_def canvas_vertices_def
        degenerate_mesh_def)
  have f: "faces degenerate_mesh = [(0, 1, 2)]"
    by (simp add: degenerate_mesh_def)
  have z: "zero_area (vertices degenerate_mesh) (0, 1, 2)"
    by (simp add: zero_area_def degenerate_mesh_def np_cross_def)
  show ?thesis
    by (simp add: z a color_fader_nan FlatShadedRenderer_render_object_def s p f
        FlatShadedRenderer_init_def surface_200_def get_canvas_size_def clear_canvas_def
        draw_canvas_point_def)
qed

subsection \<open>Rotation\<close>

lemma rot_mat_product:
  "rot_mat a b r = matmul3 (matmul3 (spec_Rz a) (spec_Ry b)) (spec_Rx r)"
  by (simp add: rot_mat_def spec_Rx_def spec_Ry_def spec_Rz_def algebra_simps)

lemma vecmat_matmul3: "vecmat v (matmul3 A B) = vecmat (vecmat v A) B"
proof -
  obtain x y z where v: "v = (x, y, z)" by (cases v)
  obtain a1 a2 a3 b1 b2 b3 c1 c2 c3 where A: "A = ((a1, a2, a3), (b1, b2, b3), (c1, c2, c3))"
    by (cases A) auto
  obtain d1 d2 d3 e1 e2 e3 f1 f2 f3 where B: "B = ((d1, d2, d3), (e1, e2, e3), (f1, f2, f3))"
    by (cases B) auto
  show ?thesis
    unfolding v A B by (simp add: algebra_simps)
qed

lemma vecmat_identity: "vecmat v (rot_mat 0 0 0) = v"
  by (cases v) (simp add: rot_mat_def)

lemma vecmat_vsub: "vecmat (vsub u v) M = vsub (vecmat u M) (vecmat v M)"
proof -
  obtain x y z where u: "u = (x, y, z)" by (cases u)
  obtain x' y' z' where v: "v = (x', y', z')" by (cases v)
  obtain a1 a2 a3 b1 b2 b3 c1 c2 c3 where M: "M = ((a1, a2, a3), (b1, b2, b3), (c1, c2, c3))"
    by (cases M) auto
  show ?thesis
    unfolding u v M by (simp add: algebra_simps)
qed

lemma plane_rotation:
  fixes c s p q :: real
  assumes "c\<^sup>2 + s\<^sup>2 = 1"
  shows "(p * c + q * s)\<^sup>2 + (q * c - p * s)\<^sup>2 = p\<^sup>2 + q\<^sup>2"
proof -
  have "(p * c + q * s)\<^sup>2 + (q * c - p * s)\<^sup>2 = (p\<^sup>2 + q\<^sup>2) * (c\<^sup>2 + s\<^sup>2)"
    by (simp add: power2_eq_square algebra_simps)
  with assms show ?thesis by simp
qed

lemma cos_sin_unit: "(cos t)\<^sup>2 + (sin t)\<^sup>2 = (1::real)"
  by simp

lemma norm_Rx: "np_linalg_norm (vecmat v (spec_Rx r)) = np_linalg_norm v"
proof -
  obtain x y z where v: "v = (x, y, z)" by (cases v)
  have "(y * cos r + z * sin r)\<^sup>2 + (z * cos r - y * sin r)\<^sup>2 = y\<^sup>2 + z\<^sup>2"
    by (rule plane_rotation [OF cos_sin_unit])
  then have "x\<^sup>2 + (y * cos r + z * sin r)\<^sup>2 + (z * cos r - y * sin r)\<^sup>2 = x\<^sup>2 + y\<^sup>2 + z\<^sup>2"
    by simp
  then show ?thesis
    unfolding v by (simp add: np_linalg_norm_def spec_Rx_def algebra_simps)
qed


lemma norm_Ry: "np_linalg_norm (vecmat v (spec_Ry b)) = np_linalg_norm v"
proof -
  obtain x y z where v: "v = (x, y, z)" by (cases v)
  have "(z * cos b + x * sin b)\<^sup>2 + (x * cos b - z * sin b)\<^sup>2 = z\<^sup>2 + x\<^sup>2"
    by (rule plane_rotation [OF cos_sin_unit])
  then have "(x * cos b - z * sin b)\<^sup>2 + y\<^sup>2 + (z * cos b + x * sin b)\<^sup>2 = x\<^sup>2 + y\<^sup>2 + z\<^sup>2"
    by simp
  then show ?thesis
    unfolding v by (simp add: np_linalg_norm_def spec_Ry_def algebra_simps)
qed

lemma norm_Rz: "np_linalg_norm (vecmat v (spec_Rz a)) = np_linalg_norm v"
proof -
  obtain x y z where v: "v = (x, y, z)" by (cases v)
  have "(x * cos a + y * sin a)\<^sup>2 + (y * cos a - x * sin a)\<^sup>2 = x\<^sup>2 + y\<^sup>2"
    by (rule plane_rotation [OF cos_sin_unit])
  then have "(x * cos a + y * sin a)\<^sup>2 + (y * cos a - x * sin a)\<^sup>2 + z\<^sup>2 = x\<^sup>2 + y\<^sup>2 + z\<^sup>2"
    by simp
  then show ?thesis
    unfolding v by (simp add: np_linalg_norm_def spec_Rz_def algebra_simps)
qed

lemma norm_rot_mat: "np_linalg_norm (vecmat v (rot_mat a b r)) = np_linalg_norm v"
  by (simp add: rot_mat_product vecmat_matmul3 norm_Rx norm_Ry norm_Rz)

lemma dist3_rot_mat: "dist3 (vecmat u (rot_mat a b r)) (vecmat v (rot_mat a b r)) = dist3 u v"
  by (simp add: dist3_def vecmat_vsub [symmetric] norm_rot_mat)

lemma rotate_zero: "Object_rotate obj 0 0 0 = obj"
proof -
  have "map (\<lambda>v. vecmat v (rot_mat 0 0 0)) (vertices obj) = vertices obj"
    by (simp add: vecmat_identity)
  then show ?thesis
    by (simp add: Object_rotate_def)
qed

lemma quarter_turns_differ:
  "vecmat (vecmat (-1, -1, -1) (rot_mat 0 (pi / 2) 0)) (rot_mat (pi / 2) 0 0) = (-1, -1, -1)"
  "vecmat (-1, -1, -1) (rot_mat (pi / 2) (pi / 2) 0) = (1, 1, -1)"
  by (simp_all add: rot_mat_def)

text \<open>C4. The matrix that \<open>rotate\<close> builds is the product
  \<open>Rz(yaw) \<cdot> Ry(pitch) \<cdot> Rx(roll)\<close>, and \<open>rotate\<close> replaces every vertex \<open>v\<close> by the
  row vector \<open>v \<cdot> R\<close> (the faces are untouched); \<open>rotate(0, 0, 0)\<close> changes nothing; the
  distance of any two vertices is the same before and after a rotation; two rotations in
  sequence are one multiplication by the product of their two matrices, and not the
  rotation by the summed angles: a quarter turn in pitch followed by a quarter turn in yaw
  differs on the unit cube from the rotation by yaw and pitch a quarter turn each. (Real
  arithmetic: the equalities are exact.)\<close>

theorem rotate_applies_combined_matrix:
  "rot_mat yaw pitch roll = matmul3 (matmul3 (spec_Rz yaw) (spec_Ry pitch)) (spec_Rx roll)
   \<and> Object_rotate obj yaw pitch roll =
       obj\<lparr>vertices :=
             map (\<lambda>v. vecmat v (matmul3 (matmul3 (spec_Rz yaw) (spec_Ry pitch)) (spec_Rx roll)))
               (vertices obj)\<rparr>
   \<and> rot_mat 0 0 0 = identity3
   \<and> Object_rotate obj 0 0 0 = obj
   \<and> (\<forall>i j. i < length (vertices obj) \<longrightarrow> j < length (vertices obj) \<longrightarrow>
          dist3 (vertices (Object_rotate obj yaw pitch roll) ! i)
                (vertices (Object_rotate obj yaw pitch roll) ! j)
          = dist3 (vertices obj ! i) (vertices obj ! j))
   \<and> Object_rotate (Object_rotate obj yaw pitch roll) yaw' pitch' roll' =
       obj\<lparr>vertices :=
             map (\<lambda>v. vecmat v (matmul3 (rot_mat yaw pitch roll) (rot_mat yaw' pitch' roll')))
               (vertices obj)\<rparr>
   \<and> Object_rotate (Object_rotate unit_cube 0 (pi / 2) 0) (pi / 2) 0 0
       \<noteq> Object_rotate unit_cube (0 + pi / 2) (pi / 2 + 0) (0 + 0)"
proof -
  have m: "rot_mat yaw pitch roll = matmul3 (matmul3 (spec_Rz yaw) (spec_Ry pitch)) (spec_Rx roll)"
    by (rule rot_mat_product)
  have a: "Object_rotate obj yaw pitch roll =
       obj\<lparr>vertices :=
             map (\<lambda>v. vecmat v (matmul3 (matmul3 (spec_Rz yaw) (spec_Ry pitch)) (spec_Rx roll)))
               (vertices obj)\<rparr>"
    unfolding Object_rotate_def m ..
  have d: "\<forall>i j. i < length (vertices obj) \<longrightarrow> j < length (vertices obj) \<longrightarrow>
          dist3 (vertices (Object_rotate obj yaw pitch roll) ! i)
                (vertices (Object_rotate obj yaw pitch roll) ! j)
          = dist3 (vertices obj ! i) (vertices obj ! j)"
    by (simp add: Object_rotate_def dist3_rot_mat)
  have c: "Object_rotate (Object_rotate obj yaw pitch roll) yaw' pitch' roll' =
       obj\<lparr>vertices :=
             map (\<lambda>v. vecmat v (matmul3 (rot_mat yaw pitch roll) (rot_mat yaw' pitch' roll')))
               (vertices obj)\<rparr>"
    by (simp add: Object_rotate_def vecmat_matmul3 comp_def)
  have n: "Object_rotate (Object_rotate unit_cube 0 (pi / 2) 0) (pi / 2) 0 0
       \<noteq> Object_rotate unit_cube (0 + pi / 2) (pi / 2 + 0) (0 + 0)"
  proof
    assume "Object_rotate (Object_rotate unit_cube 0 (pi / 2) 0) (pi / 2) 0 0
       = Object_rotate unit_cube (0 + pi / 2) (pi / 2 + 0) (0 + 0)"
    then have "hd (vertices (Object_rotate (Object_rotate unit_cube 0 (pi / 2) 0) (pi / 2) 0 0))
       = hd (vertices (Object_rotate unit_cube (pi / 2) (pi / 2) 0))"
      by simp
    then show False
      by (simp add: Object_rotate_def unit_cube_def quarter_turns_differ)
  qed
  have i: "rot_mat 0 0 0 = identity3"
    by (simp add: rot_mat_def identity3_def)
  from m a i rotate_zero d c n show ?thesis
    by blast
qed

theorem rotate_applies_combined_matrix_witness:
  "vertices (Object_rotate unit_cube (pi / 2) 0 0) ! 0 = (-1, 1, -1)
   \<and> vertices (Object_rotate unit_cube (pi / 2) 0 0) ! 1 = (-1, -1, -1)
   \<and> dist3 (vertices (Object_rotate unit_cube (pi / 2) 0 0) ! 0)
            (vertices (Object_rotate unit_cube (pi / 2) 0 0) ! 1)
      = dist3 (vertices unit_cube ! 0) (vertices unit_cube ! 1)"
proof -
  have l: "0 < length (vertices unit_cube)" "1 < length (vertices unit_cube)"
    by (simp_all add: unit_cube_def)
  note rotate_applies_combined_matrix [of "pi / 2" 0 0 unit_cube, THEN conjunct2,
      THEN conjunct2, THEN conjunct2, THEN conjunct2, THEN conjunct1, rule_format, OF l]
  moreover have "vertices (Object_rotate unit_cube (pi / 2) 0 0) ! 0 = (-1, 1, -1)"
    and "vertices (Object_rotate unit_cube (pi / 2) 0 0) ! 1 = (-1, -1, -1)"
    by (simp_all add: Object_rotate_def unit_cube_def rot_mat_def)
  ultimately show ?thesis by simp
qed

subsection \<open>Normalization\<close>
























end
